theory Spec2Isabelle
  imports Main "HOL-Library.Word" "HOL-Library.Sublist"
begin

unbundle bit_operations_syntax

section \<open>Python values shared by the three modules\<close>

text \<open>
  Exceptions are values. The type \<open>exn\<close> stands for instances of Python's class
  \<open>Exception\<close>, which is what every \<open>except Exception\<close> clause of the sources
  catches; \<open>PermissionError\<close> is kept apart because \<open>reset_machine.py\<close> has a
  clause of its own for it. Interpreter signals that derive from \<open>BaseException\<close>
  only (keyboard interrupt, task cancellation) are outside the model, and so is a
  failure of writing to the console or to the log.
\<close>

datatype exn =
    AttributeError string
  | TypeError string
  | KeyError string
  | PermissionError string
  | OtherException string

text \<open>
  What \<open>json.load\<close> and \<open>response.json()\<close> produce: \<open>None\<close>, \<open>bool\<close>, \<open>int\<close>,
  \<open>float\<close>, \<open>str\<close>, \<open>list\<close> and \<open>dict\<close>. A dict is an association list in
  insertion order; the first entry of a key is the one a lookup finds. The floats
  are a type parameter: no claim depends on their arithmetic.
\<close>

datatype 'f json =
    JNull
  | JBool bool
  | JInt int
  | JFloat 'f
  | JString string
  | JArray "'f json list"
  | JObject "(string \<times> 'f json) list"

text \<open>\<open>haystack.startswith(needle)\<close> and \<open>needle in haystack\<close> on \<open>str\<close>.\<close>

fun starts_with :: "string \<Rightarrow> string \<Rightarrow> bool" where
  "starts_with hay [] = True"
| "starts_with [] (n # ns) = False"
| "starts_with (h # hs) (n # ns) = (h = n \<and> starts_with hs ns)"

fun str_contains :: "string \<Rightarrow> string \<Rightarrow> bool" where
  "str_contains [] needle = (needle = [])"
| "str_contains (h # hs) needle = (starts_with (h # hs) needle \<or> str_contains hs needle)"

section \<open>The remote usage client (tokenManager/cursor.py)\<close>

record request =
  url :: string
  headers :: "(string \<times> string) list"

text \<open>
  \<open>requests.get\<close> is the environment: it either raises or returns a response, whose
  \<open>.json()\<close> either raises or yields the parsed body.
\<close>

type_synonym 'f response = "exn + 'f json"
type_synonym 'f http = "request \<Rightarrow> exn + 'f response"

text \<open>\<open>obj.get(key, None)\<close>: only a dict has the method.\<close>

fun py_get :: "'f json \<Rightarrow> string \<Rightarrow> exn + 'f json" where
  "py_get (JObject kvs) key = Inr (case map_of kvs key of None \<Rightarrow> JNull | Some v \<Rightarrow> v)"
| "py_get other key = Inl (AttributeError ''get'')"

text \<open>
  \<open>key in obj\<close>: key membership on a dict, substring test on a str, element
  membership on a list, and a TypeError on a value that is not iterable.
\<close>

fun py_in :: "string \<Rightarrow> 'f json \<Rightarrow> exn + bool" where
  "py_in key (JObject kvs) = Inr (key \<in> fst ` set kvs)"
| "py_in key (JString s) = Inr (str_contains s key)"
| "py_in key (JArray xs) = Inr (JString key \<in> set xs)"
| "py_in key other = Inl (TypeError ''not iterable'')"

text \<open>\<open>obj[key]\<close> with a str key: only a dict accepts it.\<close>

fun py_getitem :: "'f json \<Rightarrow> string \<Rightarrow> exn + 'f json" where
  "py_getitem (JObject kvs) key =
     (case map_of kvs key of None \<Rightarrow> Inl (KeyError key) | Some v \<Rightarrow> Inr v)"
| "py_getitem other key = Inl (TypeError ''indices'')"

text \<open>
  Binary minus. \<open>bool\<close> is a subclass of \<open>int\<close>; two ints give an int, exactly.
  When a float is involved the result is the float difference of the operands, kept
  symbolic as \<open>FloatDiff\<close>; an int operand is converted to a float first, which
  raises OverflowError when it rounds beyond the largest double, that is from
  \<open>2^1024 - 2^970\<close> on. Every other operand raises TypeError.
\<close>

datatype 'f number = NInt int | NFloat 'f

datatype 'f pyval = PyInt int | FloatDiff "'f number" "'f number"

fun py_number :: "'f json \<Rightarrow> 'f number option" where
  "py_number (JInt i) = Some (NInt i)"
| "py_number (JBool b) = Some (NInt (if b then 1 else 0))"
| "py_number (JFloat x) = Some (NFloat x)"
| "py_number other = None"

definition fits_float :: "int \<Rightarrow> bool" where
  "fits_float i = (\<bar>i\<bar> < 2 ^ 1024 - 2 ^ 970)"

fun num_sub :: "'f number \<Rightarrow> 'f number \<Rightarrow> exn + 'f pyval" where
  "num_sub (NInt a) (NInt b) = Inr (PyInt (a - b))"
| "num_sub (NFloat x) (NFloat y) = Inr (FloatDiff (NFloat x) (NFloat y))"
| "num_sub (NInt a) (NFloat y) =
     (if fits_float a then Inr (FloatDiff (NInt a) (NFloat y))
      else Inl (OtherException ''OverflowError''))"
| "num_sub (NFloat x) (NInt b) =
     (if fits_float b then Inr (FloatDiff (NFloat x) (NInt b))
      else Inl (OtherException ''OverflowError''))"

definition py_sub :: "'f json \<Rightarrow> 'f json \<Rightarrow> exn + 'f pyval" where
  "py_sub a b =
     (case (py_number a, py_number b) of
        (Some x, Some y) \<Rightarrow> num_sub x y
      | _ \<Rightarrow> Inl (TypeError ''unsupported operand''))"

definition auth_headers :: "string \<Rightarrow> string \<Rightarrow> (string \<times> string) list" where
  "auth_headers user token =
     [(''Content-Type'', ''application/json''),
      (''Cookie'', ''WorkosCursorSessionToken='' @ user @ ''%3A%3A'' @ token)]"

text \<open>
  The part of \<open>get_remaining_balance\<close> after \<open>usage = response.json().get("gpt-4", None)\<close>:
  the short-circuit test, then the subtraction.
\<close>

definition balance_of_usage :: "'f json \<Rightarrow> exn + 'f pyval option" where
  "balance_of_usage usage =
     (if usage = JNull then Inr None
      else
        (case py_in ''maxRequestUsage'' usage of
           Inl e \<Rightarrow> Inl e
         | Inr has_max \<Rightarrow>
             (if \<not> has_max then Inr None
              else
                (case py_in ''numRequests'' usage of
                   Inl e \<Rightarrow> Inl e
                 | Inr has_num \<Rightarrow>
                     (if \<not> has_num then Inr None
                      else
                        (case py_getitem usage ''maxRequestUsage'' of
                           Inl e \<Rightarrow> Inl e
                         | Inr m \<Rightarrow>
                             (case py_getitem usage ''numRequests'' of
                                Inl e \<Rightarrow> Inl e
                              | Inr n \<Rightarrow>
                                  (case py_sub m n of
                                     Inl e \<Rightarrow> Inl e
                                   | Inr d \<Rightarrow> Inr (Some d)))))))))"

text \<open>
  Both operations return the requests they sent together with their outcome
  (\<open>Inl\<close>: the exception that reaches the caller).
\<close>

definition get_remaining_balance ::
  "'f http \<Rightarrow> string \<Rightarrow> string \<Rightarrow> request list \<times> (exn + 'f pyval option)" where
  "get_remaining_balance requests_get user token =
     (let req = \<lparr>url = ''https://www.cursor.com/api/usage?user='' @ user,
                 headers = auth_headers user token\<rparr>
      in ([req],
          case requests_get req of
            Inl e \<Rightarrow> Inl e
          | Inr response \<Rightarrow>
              (case response of
                 Inl e \<Rightarrow> Inl e
               | Inr body \<Rightarrow>
                   (case py_get body ''gpt-4'' of
                      Inl e \<Rightarrow> Inl e
                    | Inr usage \<Rightarrow> balance_of_usage usage))))"

definition get_trial_remaining_days ::
  "'f http \<Rightarrow> string \<Rightarrow> string \<Rightarrow> request list \<times> (exn + 'f json)" where
  "get_trial_remaining_days requests_get user token =
     (let req = \<lparr>url = ''https://www.cursor.com/api/auth/stripe'',
                 headers = auth_headers user token\<rparr>
      in ([req],
          case requests_get req of
            Inl e \<Rightarrow> Inl e
          | Inr response \<Rightarrow>
              (case response of
                 Inl e \<Rightarrow> Inl e
               | Inr body \<Rightarrow> py_get body ''daysRemainingOnTrial'')))"

text \<open>A remote service that answers every request with the JSON body \<open>body\<close>.\<close>

definition answers :: "'f json \<Rightarrow> 'f http" where
  "answers body = (\<lambda>req. Inr (Inr body))"

text \<open>
  The claim about the cookie speaks of URL encoding, which the source never calls.
  \<open>url_encode\<close> follows the specification's words, as \<open>urllib.parse.quote\<close>
  with no safe characters does: every byte but the unreserved ones (letters,
  digits, \<open>-._~\<close>) becomes \<open>%XX\<close> with upper-case hexadecimal digits.
  \<open>spec_cookie\<close> is the cookie value the specification's words describe.
\<close>

definition unreserved :: "char \<Rightarrow> bool" where
  "unreserved c =
     (c \<in> set (''abcdefghijklmnopqrstuvwxyz'' @ ''ABCDEFGHIJKLMNOPQRSTUVWXYZ'' @
                ''0123456789'' @ ''-._~''))"

definition percent_encode :: "char \<Rightarrow> string" where
  "percent_encode c =
     (if unreserved c then [c]
      else [CHR ''%'', ''0123456789ABCDEF'' ! ((of_char c :: nat) div 16),
            ''0123456789ABCDEF'' ! ((of_char c :: nat) mod 16)])"

definition url_encode :: "string \<Rightarrow> string" where
  "url_encode s = concat (map percent_encode s)"

definition spec_cookie :: "string \<Rightarrow> string \<Rightarrow> string" where
  "spec_cookie user token = ''WorkosCursorSessionToken='' @ url_encode (user @ ''::'' @ token)"

section \<open>The persistence layer (database.py)\<close>

text \<open>
  The engine is known by the arguments \<open>create_async_engine\<close> was called with.
\<close>

record engine_args =
  engine_url :: string
  echo :: bool
  connect_args :: "(string \<times> bool) list"
  future :: bool

text \<open>
  What the two logging functions are called with. The sources' messages are Chinese
  text followed by \<open>str(e)\<close>; each message is a constructor here.
\<close>

datatype log_entry =
    SessionError exn
  | RollbackError exn
  | CloseError exn
  | DisposeError exn
  | InitFailed exn
  | InitDone

datatype event =
    CallCreateAsyncEngine engine_args
  | NewSession
  | CallExecute string
  | YieldSession
  | CallRollback
  | CallClose
  | CallDispose
  | CallBegin
  | CallRunSyncCreateAll
  | ExitBegin
  | LogError log_entry
  | LogInfo log_entry

text \<open>
  The world a call runs in: the configured \<open>DATABASE_URL\<close> and, for each call into
  SQLAlchemy, whether it raises (\<open>Some e\<close>) or returns (\<open>None\<close>). \<open>with_body\<close> is
  the caller's block under \<open>async with get_session() as session\<close>. \<open>begin_exit\<close> is
  the exit of \<open>async with engine.begin()\<close>: it receives the exception of the block,
  if any, and gives the exception that leaves the statement, if any.
\<close>

record db_world =
  DATABASE_URL :: string
  create_async_engine :: "engine_args \<Rightarrow> exn option"
  session_execute :: "string \<Rightarrow> exn option"
  with_body :: "exn option"
  session_rollback :: "exn option"
  session_close :: "exn option"
  engine_dispose :: "exn option"
  engine_begin :: "exn option"
  run_sync_create_all :: "exn option"
  begin_exit :: "exn option \<Rightarrow> exn option"

definition create_engine_args :: "string \<Rightarrow> engine_args" where
  "create_engine_args db_url =
     \<lparr>engine_url = db_url,
      echo = False,
      connect_args = (if str_contains db_url ''sqlite'' then [(''check_same_thread'', False)] else []),
      future = True\<rparr>"

definition create_engine :: "db_world \<Rightarrow> event list \<times> (exn + engine_args)" where
  "create_engine w =
     (let args = create_engine_args (DATABASE_URL w)
      in ([CallCreateAsyncEngine args],
          case create_async_engine w args of Some e \<Rightarrow> Inl e | None \<Rightarrow> Inr args))"

text \<open>
  The three parts of \<open>get_session\<close>. \<open>try_part\<close> is the body of the \<open>try\<close>: the
  connectivity query, then the \<open>yield\<close>, at which the caller's block runs; it gives
  the exception raised there, if any. \<open>except_part\<close> is the handler, entered with
  that exception; the bare \<open>raise\<close> at its end re-raises the same exception.
  \<open>finally_part\<close> runs on every path.
\<close>

definition try_part :: "db_world \<Rightarrow> event list \<times> exn option" where
  "try_part w =
     (case session_execute w ''SELECT 1'' of
        Some e \<Rightarrow> ([CallExecute ''SELECT 1''], Some e)
      | None \<Rightarrow> ([CallExecute ''SELECT 1'', YieldSession], with_body w))"

definition except_part :: "db_world \<Rightarrow> exn \<Rightarrow> event list \<times> exn" where
  "except_part w e =
     ([LogError (SessionError e), CallRollback] @
      (case session_rollback w of
         Some rollback_error \<Rightarrow> [LogError (RollbackError rollback_error)]
       | None \<Rightarrow> []),
      e)"

definition finally_part :: "db_world \<Rightarrow> event list" where
  "finally_part w =
     [CallClose] @
     (case session_close w of Some e \<Rightarrow> [LogError (CloseError e)] | None \<Rightarrow> []) @
     [CallDispose] @
     (case engine_dispose w of Some e \<Rightarrow> [LogError (DisposeError e)] | None \<Rightarrow> [])"

text \<open>
  \<open>get_session\<close> as the \<open>async with\<close> statement of a caller sees it: the events in
  order, and \<open>Inl e\<close> when \<open>e\<close> leaves the statement. An exception of
  \<open>create_engine()\<close> leaves before the \<open>try\<close> is entered.
\<close>

definition get_session :: "db_world \<Rightarrow> event list \<times> (exn + unit)" where
  "get_session w =
     (case create_engine w of
        (t0, Inl e) \<Rightarrow> (t0, Inl e)
      | (t0, Inr engine) \<Rightarrow>
          (case try_part w of
             (t1, None) \<Rightarrow> (t0 @ [NewSession] @ t1 @ finally_part w, Inr ())
           | (t1, Some e) \<Rightarrow>
               (case except_part w e of
                  (t2, e') \<Rightarrow> (t0 @ [NewSession] @ t1 @ t2 @ finally_part w, Inl e'))))"

text \<open>
  The \<open>async with engine.begin() as conn: await conn.run_sync(...)\<close> statement of
  \<open>init_db\<close>, the schema-creation step.
\<close>

definition schema_step :: "db_world \<Rightarrow> event list \<times> exn option" where
  "schema_step w =
     (case engine_begin w of
        Some e \<Rightarrow> ([CallBegin], Some e)
      | None \<Rightarrow>
          ([CallBegin, CallRunSyncCreateAll, ExitBegin], begin_exit w (run_sync_create_all w)))"

text \<open>
  The body of the \<open>try\<close> of \<open>init_db\<close>, then \<open>init_db\<close> with its handler, which
  logs and re-raises.
\<close>

definition init_db_try :: "db_world \<Rightarrow> event list \<times> exn option" where
  "init_db_try w =
     (case create_engine w of
        (t0, Inl e) \<Rightarrow> (t0, Some e)
      | (t0, Inr engine) \<Rightarrow>
          (case schema_step w of
             (t1, Some e) \<Rightarrow> (t0 @ t1, Some e)
           | (t1, None) \<Rightarrow>
               (case engine_dispose w of
                  Some e \<Rightarrow> (t0 @ t1 @ [CallDispose], Some e)
                | None \<Rightarrow> (t0 @ t1 @ [CallDispose, LogInfo InitDone], None))))"

definition init_db :: "db_world \<Rightarrow> event list \<times> (exn + unit)" where
  "init_db w =
     (case init_db_try w of
        (t, None) \<Rightarrow> (t, Inr ())
      | (t, Some e) \<Rightarrow> (t @ [LogError (InitFailed e)], Inl e))"

section \<open>The machine-identity rewriter (reset_machine.py)\<close>

subsection \<open>Library functions the rewriter calls\<close>

text \<open>
  \<open>'%0nx' % i\<close> and \<open>digest.hex()\<close>: the hexadecimal digits of a word, most
  significant first, four bits each, lower case.
\<close>

definition hex_digit :: "nat \<Rightarrow> char" where
  "hex_digit n = ''0123456789abcdef'' ! (n mod 16)"

definition hex_of_word :: "'a::len word \<Rightarrow> string" where
  "hex_of_word w =
     map (\<lambda>i. hex_digit (unat (take_bit 4 (drop_bit (4 * i) w)))) (rev [0 ..< LENGTH('a) div 4])"

text \<open>\<open>str.upper()\<close> on ASCII text.\<close>

definition upper_char :: "char \<Rightarrow> char" where
  "upper_char c =
     (case map_of (zip ''abcdefghijklmnopqrstuvwxyz'' ''ABCDEFGHIJKLMNOPQRSTUVWXYZ'') c of
        Some u \<Rightarrow> u
      | None \<Rightarrow> c)"

definition upper :: "string \<Rightarrow> string" where
  "upper s = map upper_char s"

text \<open>
  \<open>uuid.uuid4()\<close> of CPython is \<open>UUID(bytes=os.urandom(16), version=4)\<close>: the
  sixteen bytes read as a big-endian integer, the variant bits set to \<open>10\<close> and the
  version nibble to 4. \<open>str\<close> of a UUID groups the 32 hexadecimal digits as
  8-4-4-4-12.
\<close>

definition int_from_bytes :: "8 word list \<Rightarrow> 128 word" where
  "int_from_bytes bs = foldl (\<lambda>acc b. push_bit 8 acc OR ucast b) 0 bs"

definition uuid4_of_bytes :: "8 word list \<Rightarrow> 128 word" where
  "uuid4_of_bytes bs =
     (let i0 = int_from_bytes bs;
          i1 = i0 AND NOT (push_bit 48 0xc000);
          i2 = i1 OR push_bit 48 0x8000;
          i3 = i2 AND NOT (push_bit 64 0xf000);
          i4 = i3 OR push_bit 76 4
      in i4)"

definition str_uuid :: "128 word \<Rightarrow> string" where
  "str_uuid i =
     (let h = hex_of_word i
      in take 8 h @ ''-'' @ take 4 (drop 8 h) @ ''-'' @ take 4 (drop 12 h) @ ''-'' @
         take 4 (drop 16 h) @ ''-'' @ drop 20 h)"



text \<open>
  \<open>d[k] = v\<close> and \<open>d.update(other)\<close> on a dict in insertion order: a key that is
  present keeps its place, a new key goes to the end.
\<close>

fun dict_set :: "('k \<times> 'v) list \<Rightarrow> 'k \<Rightarrow> 'v \<Rightarrow> ('k \<times> 'v) list" where
  "dict_set [] k v = [(k, v)]"
| "dict_set ((k', v') # kvs) k v =
     (if k' = k then (k, v) # kvs else (k', v') # dict_set kvs k v)"

definition dict_update :: "('k \<times> 'v) list \<Rightarrow> ('k \<times> 'v) list \<Rightarrow> ('k \<times> 'v) list" where
  "dict_update d other = foldl (\<lambda>acc (k, v). dict_set acc k v) d other"

text \<open>\<open>config.update(new_ids)\<close>: only a dict has the method.\<close>

fun config_update :: "'f json \<Rightarrow> (string \<times> string) list \<Rightarrow> exn + 'f json" where
  "config_update (JObject kvs) new_ids =
     Inr (JObject (dict_update kvs (map (\<lambda>(k, v). (k, JString v)) new_ids)))"
| "config_update other new_ids = Inl (AttributeError ''update'')"

subsection \<open>The file, the console and the resetter\<close>

text \<open>
  The text of the configuration file is known by what \<open>json.load\<close> makes of it:
  \<open>JsonText j\<close> parses to \<open>j\<close> (and is what \<open>json.dump\<close> of \<open>j\<close> leaves),
  \<open>OtherText s\<close> is text that \<open>json.load\<close> rejects.
\<close>

datatype 'f file_content = JsonText "'f json" | OtherText string

datatype message =
    Checking
  | NoConfigFile string
  | CannotReadWrite
  | ReadOnlyHint string
  | Reading
  | Generating
  | Saving
  | Succeeded
  | NewIdsHeader
  | NewId string string
  | PermissionErrorMsg exn
  | RunAsAdminHint
  | ResetFailedMsg exn

datatype effect = Print message | OpenForRead | OpenForWrite

text \<open>
  The world of a resetter: its \<open>db_path\<close>, the bytes \<open>os.urandom\<close> will give, the
  two hash functions of \<open>hashlib\<close>, and whether a call into the file system raises
  although the checks passed. \<open>json_dump\<close> is the \<open>with\<close> block that writes: when
  it raises, it says what text is left in the file.
\<close>

record 'f rm_world =
  db_path :: string
  urandom_stream :: "nat \<Rightarrow> 8 word"
  sha256 :: "8 word list \<Rightarrow> 256 word"
  sha512 :: "8 word list \<Rightarrow> 512 word"
  open_read :: "exn option"
  open_write :: "exn option"
  json_dump :: "(exn \<times> 'f file_content) option"

text \<open>
  The state a call changes: the file at \<open>db_path\<close> (\<open>None\<close> when
  \<open>os.path.exists\<close> is false), what \<open>os.access\<close> answers for reading and
  writing, how many random bytes have been drawn, and the effects so far.
\<close>

record 'f rm_state =
  config_file :: "'f file_content option"
  access_rw :: bool
  drawn :: nat
  effects :: "effect list"

definition emit :: "effect \<Rightarrow> 'f rm_state \<Rightarrow> 'f rm_state" where
  "emit x s = s\<lparr>effects := effects s @ [x]\<rparr>"

definition urandom :: "'f rm_world \<Rightarrow> nat \<Rightarrow> 'f rm_state \<Rightarrow> 8 word list \<times> 'f rm_state" where
  "urandom w n s = (map (urandom_stream w) [drawn s ..< drawn s + n], s\<lparr>drawn := drawn s + n\<rparr>)"

definition generate_new_ids ::
  "'f rm_world \<Rightarrow> 'f rm_state \<Rightarrow> (string \<times> string) list \<times> 'f rm_state" where
  "generate_new_ids w s =
     (let (b1, s1) = urandom w 16 s;
          dev_device_id = str_uuid (uuid4_of_bytes b1);
          (b2, s2) = urandom w 32 s1;
          machine_id = hex_of_word (sha256 w b2);
          (b3, s3) = urandom w 64 s2;
          mac_machine_id = hex_of_word (sha512 w b3);
          (b4, s4) = urandom w 16 s3;
          sqm_id = ''{'' @ upper (str_uuid (uuid4_of_bytes b4)) @ ''}''
      in ([(''telemetry.devDeviceId'', dev_device_id),
           (''telemetry.macMachineId'', mac_machine_id),
           (''telemetry.machineId'', machine_id),
           (''telemetry.sqmId'', sqm_id)],
          s4))"

text \<open>
  \<open>with open(self.db_path, "r") as f: config = json.load(f)\<close>, reached only when
  the file exists.
\<close>

definition load_config :: "'f rm_world \<Rightarrow> 'f rm_state \<Rightarrow> (exn + 'f json) \<times> 'f rm_state" where
  "load_config w s =
     (case open_read w of
        Some e \<Rightarrow> (Inl e, s)
      | None \<Rightarrow>
          (case config_file s of
             None \<Rightarrow> (Inl (OtherException ''FileNotFoundError''), s)
           | Some (OtherText t) \<Rightarrow> (Inl (OtherException ''JSONDecodeError''), emit OpenForRead s)
           | Some (JsonText j) \<Rightarrow> (Inr j, emit OpenForRead s)))"

text \<open>
  \<open>with open(self.db_path, "w") as f: json.dump(config, f, indent=4)\<close>: opening
  for writing empties the file before anything is written.
\<close>

definition save_config ::
  "'f rm_world \<Rightarrow> 'f json \<Rightarrow> 'f rm_state \<Rightarrow> (exn + unit) \<times> 'f rm_state" where
  "save_config w config s =
     (case open_write w of
        Some e \<Rightarrow> (Inl e, s)
      | None \<Rightarrow>
          (let s1 = emit OpenForWrite (s\<lparr>config_file := Some (OtherText [])\<rparr>)
           in case json_dump w of
                Some (e, left) \<Rightarrow> (Inl e, s1\<lparr>config_file := Some left\<rparr>)
              | None \<Rightarrow> (Inr (), s1\<lparr>config_file := Some (JsonText config)\<rparr>)))"

text \<open>The body of the \<open>try\<close> of \<open>reset_machine_ids\<close>.\<close>

definition reset_try :: "'f rm_world \<Rightarrow> 'f rm_state \<Rightarrow> (exn + bool) \<times> 'f rm_state" where
  "reset_try w s =
     (let s = emit (Print Checking) s
      in if config_file s = None then (Inr False, emit (Print (NoConfigFile (db_path w))) s)
         else if \<not> access_rw s then
           (Inr False, emit (Print (ReadOnlyHint (db_path w))) (emit (Print CannotReadWrite) s))
         else
           (case load_config w (emit (Print Reading) s) of
              (Inl e, s) \<Rightarrow> (Inl e, s)
            | (Inr config, s) \<Rightarrow>
                (case generate_new_ids w (emit (Print Generating) s) of
                   (new_ids, s) \<Rightarrow>
                     (case config_update config new_ids of
                        Inl e \<Rightarrow> (Inl e, s)
                      | Inr config' \<Rightarrow>
                          (case save_config w config' (emit (Print Saving) s) of
                             (Inl e, s) \<Rightarrow> (Inl e, s)
                           | (Inr u, s) \<Rightarrow>
                               (Inr True,
                                foldl (\<lambda>s (k, v). emit (Print (NewId k v)) s)
                                  (emit (Print NewIdsHeader) (emit (Print Succeeded) s))
                                  new_ids))))))"

text \<open>
  The two handlers of \<open>reset_machine_ids\<close>: the clause for \<open>PermissionError\<close>
  comes first, the clause for \<open>Exception\<close> takes every other exception. Both
  print and return \<open>False\<close>.
\<close>

definition except_clauses :: "exn \<Rightarrow> 'f rm_state \<Rightarrow> 'f rm_state" where
  "except_clauses e s =
     (case e of
        PermissionError m \<Rightarrow> emit (Print RunAsAdminHint) (emit (Print (PermissionErrorMsg e)) s)
      | _ \<Rightarrow> emit (Print (ResetFailedMsg e)) s)"

text \<open>
  \<open>reset_machine_ids\<close>. The result is \<open>Inl e\<close> when \<open>e\<close> leaves the call,
  \<open>Inr b\<close> when the call returns \<open>b\<close>.
\<close>

definition reset_machine_ids :: "'f rm_world \<Rightarrow> 'f rm_state \<Rightarrow> (exn + bool) \<times> 'f rm_state" where
  "reset_machine_ids w s =
     (case reset_try w s of
        (Inr b, s') \<Rightarrow> (Inr b, s')
      | (Inl e, s') \<Rightarrow> (Inr False, except_clauses e s'))"

text \<open>The keys of the dict that \<open>generate_new_ids\<close> returns.\<close>

definition telemetry_keys :: "string list" where
  "telemetry_keys =
     [''telemetry.devDeviceId'', ''telemetry.macMachineId'', ''telemetry.machineId'',
      ''telemetry.sqmId'']"

section \<open>What the words of the claims mean\<close>

text \<open>
  These definitions belong to no source function: they say, without the functions
  of the model, what the texts that \<open>generate_new_ids\<close> returns must be, so that
  the model's own hexadecimal printing, UUID construction and upper-casing are
  checked against them.

  \<open>nat_of_hex\<close> reads a hexadecimal numeral, in either case. \<open>be_nat\<close> is the
  number that sixteen (or any number of) bytes spell, most significant first.
  \<open>uuid_digits\<close> are the characters of a UUID text without its hyphens.
\<close>

definition hex_value :: "char \<Rightarrow> nat" where
  "hex_value c =
     (case map_of
        [(CHR ''0'', 0), (CHR ''1'', 1), (CHR ''2'', 2), (CHR ''3'', 3), (CHR ''4'', 4),
         (CHR ''5'', 5), (CHR ''6'', 6), (CHR ''7'', 7), (CHR ''8'', 8), (CHR ''9'', 9),
         (CHR ''a'', 10), (CHR ''b'', 11), (CHR ''c'', 12), (CHR ''d'', 13), (CHR ''e'', 14),
         (CHR ''f'', 15),
         (CHR ''A'', 10), (CHR ''B'', 11), (CHR ''C'', 12), (CHR ''D'', 13), (CHR ''E'', 14),
         (CHR ''F'', 15)] c of
        Some v \<Rightarrow> v
      | None \<Rightarrow> 0)"

definition nat_of_hex :: "string \<Rightarrow> nat" where
  "nat_of_hex s = foldl (\<lambda>a c. 16 * a + hex_value c) 0 s"

definition be_nat :: "8 word list \<Rightarrow> nat" where
  "be_nat bs = foldl (\<lambda>a b. 256 * a + unat b) 0 bs"

definition uuid_digits :: "string \<Rightarrow> string" where
  "uuid_digits s = filter (\<lambda>c. c \<noteq> CHR ''-'') s"

text \<open>
  A 128-bit number \<open>n\<close> is the version-4 UUID of the random number \<open>r\<close> when its
  version field, bits 76 to 79, is 4, its variant field, bits 62 and 63, is binary
  10, and all its other 122 bits are those of \<open>r\<close>.
\<close>

definition is_uuid4_of :: "nat \<Rightarrow> nat \<Rightarrow> bool" where
  "is_uuid4_of r n =
     (n < 2 ^ 128 \<and>
      n div 2 ^ 80 = r div 2 ^ 80 \<and>
      n div 2 ^ 76 mod 16 = 4 \<and>
      n div 2 ^ 64 mod 2 ^ 12 = r div 2 ^ 64 mod 2 ^ 12 \<and>
      n div 2 ^ 62 mod 4 = 2 \<and>
      n mod 2 ^ 62 = r mod 2 ^ 62)"

text \<open>The text of a version-4 UUID in upper case.\<close>

definition is_upper_hex_char :: "char \<Rightarrow> bool" where
  "is_upper_hex_char c = (c \<in> set ''0123456789ABCDEF'')"

definition is_upper_uuid4_text :: "string \<Rightarrow> bool" where
  "is_upper_uuid4_text s =
     (length s = 36 \<and>
      list_all is_upper_hex_char
        (take 8 s @ take 4 (drop 9 s) @ take 4 (drop 14 s) @ take 4 (drop 19 s) @ drop 24 s) \<and>
      s ! 8 = CHR ''-'' \<and> s ! 13 = CHR ''-'' \<and> s ! 18 = CHR ''-'' \<and> s ! 23 = CHR ''-'' \<and>
      s ! 14 = CHR ''4'' \<and> s ! 19 \<in> set ''89AB'')"

text \<open>
  The specification says that a connection string indicates a file-based embedded
  database family. A connection string is \<open>dialect+driver://...\<close> or
  \<open>dialect://...\<close>; following the specification's words, it indicates that family
  when its dialect is \<open>sqlite\<close>.
\<close>

definition url_dialect :: "string \<Rightarrow> string" where
  "url_dialect db_url = takeWhile (\<lambda>c. c \<noteq> CHR ''+'' \<and> c \<noteq> CHR '':'') db_url"

definition spec_file_based :: "string \<Rightarrow> bool" where
  "spec_file_based db_url = (url_dialect db_url = ''sqlite'')"

section \<open>Worlds for the examples\<close>

text \<open>
  A world of the persistence layer in which the engine is built and the query
  passes, and then everything fails: the caller's block, the rollback, the close,
  the dispose, and the schema creation of \<open>init_db\<close>.
\<close>

definition failing_db_world :: db_world where
  "failing_db_world =
     \<lparr>DATABASE_URL = ''sqlite+aiosqlite:///./accounts.db'',
      create_async_engine = (\<lambda>args. None),
      session_execute = (\<lambda>query. None),
      with_body = Some (OtherException ''body''),
      session_rollback = Some (OtherException ''rollback''),
      session_close = Some (OtherException ''close''),
      engine_dispose = Some (OtherException ''dispose''),
      engine_begin = None,
      run_sync_create_all = Some (OtherException ''create_all''),
      begin_exit = (\<lambda>pending. pending)\<rparr>"

text \<open>
  A world of the rewriter in which no call into the file system raises, and a
  state in which the configuration file holds \<open>{"a": 1, "telemetry.machineId": "old"}\<close>
  and may be read and written.
\<close>

definition quiet_rm_world :: "unit rm_world" where
  "quiet_rm_world =
     \<lparr>db_path = ''/home/u/.config/Cursor/User/globalStorage/storage.json'',
      urandom_stream = (\<lambda>n. word_of_nat (7 * n + 3)),
      sha256 = (\<lambda>bs. ucast (int_from_bytes bs)),
      sha512 = (\<lambda>bs. ucast (int_from_bytes bs)),
      open_read = None,
      open_write = None,
      json_dump = None\<rparr>"

definition old_rm_state :: "unit rm_state" where
  "old_rm_state =
     \<lparr>config_file = Some (JsonText (JObject [(''a'', JInt 1), (''telemetry.machineId'', JString ''old'')])),
      access_rw = True,
      drawn = 0,
      effects = []\<rparr>"

section \<open>Properties of the remote usage client\<close>

text \<open>
  Claim C1, as the code has it. When the response body is a JSON object,
  \<open>get_remaining_balance\<close> returns \<open>None\<close> if the \<open>gpt-4\<close> entry is absent or
  null, or if it is an object that lacks \<open>maxRequestUsage\<close> or \<open>numRequests\<close>;
  when both keys are present and hold integers it returns their difference
  \<open>maxRequestUsage - numRequests\<close>, with no clamping; more generally, when both
  hold numbers the outcome is that of Python's minus on them, and when one of them
  is not a number the call raises TypeError instead of returning.
\<close>

theorem get_remaining_balance_object_body:
  "(map_of kvs ''gpt-4'' = None \<or> map_of kvs ''gpt-4'' = Some JNull \<longrightarrow>
      snd (get_remaining_balance (answers (JObject kvs)) user token) = Inr None)
 \<and> (map_of kvs ''gpt-4'' = Some (JObject u) \<and>
      (map_of u ''maxRequestUsage'' = None \<or> map_of u ''numRequests'' = None) \<longrightarrow>
      snd (get_remaining_balance (answers (JObject kvs)) user token) = Inr None)
 \<and> (map_of kvs ''gpt-4'' = Some (JObject u) \<and>
      map_of u ''maxRequestUsage'' = Some (JInt m) \<and> map_of u ''numRequests'' = Some (JInt n) \<longrightarrow>
      snd (get_remaining_balance (answers (JObject kvs)) user token) = Inr (Some (PyInt (m - n))))
 \<and> (map_of kvs ''gpt-4'' = Some (JObject u) \<and>
      map_of u ''maxRequestUsage'' = Some a \<and> map_of u ''numRequests'' = Some b \<and>
      py_number a = Some x \<and> py_number b = Some y \<longrightarrow>
      snd (get_remaining_balance (answers (JObject kvs)) user token) =
        (case num_sub x y of Inl e \<Rightarrow> Inl e | Inr d \<Rightarrow> Inr (Some d)))
 \<and> (map_of kvs ''gpt-4'' = Some (JObject u) \<and>
      map_of u ''maxRequestUsage'' = Some a \<and> map_of u ''numRequests'' = Some b \<and>
      (py_number a = None \<or> py_number b = None) \<longrightarrow>
      snd (get_remaining_balance (answers (JObject kvs)) user token) =
        Inl (TypeError ''unsupported operand''))"
  by (auto simp: get_remaining_balance_def answers_def balance_of_usage_def py_sub_def Let_def
       map_of_eq_None_iff[symmetric] split: option.splits)

theorem get_remaining_balance_object_body_witness:
  "snd (get_remaining_balance (answers (JObject [(''gpt-4'', JObject [(''maxRequestUsage'', JInt 500), (''numRequests'', JInt 120)])] :: unit json)) ''u'' ''t'') = Inr (Some (PyInt 380))
 \<and> snd (get_remaining_balance (answers (JObject [(''gpt-4'', JObject [(''maxRequestUsage'', JInt 10), (''numRequests'', JInt 25)])] :: unit json)) ''u'' ''t'') = Inr (Some (PyInt (- 15)))
 \<and> snd (get_remaining_balance (answers (JObject [(''gpt-4'', JObject [(''numRequests'', JInt 25)])] :: unit json)) ''u'' ''t'') = Inr None
 \<and> snd (get_remaining_balance (answers (JObject [(''gpt-3.5-turbo'', JNull)] :: unit json)) ''u'' ''t'') = Inr None
 \<and> snd (get_remaining_balance (answers (JObject [(''gpt-4'', JObject [(''maxRequestUsage'', JBool True), (''numRequests'', JBool False)])] :: unit json)) ''u'' ''t'') = Inr (Some (PyInt 1))
 \<and> snd (get_remaining_balance (answers (JObject [(''gpt-4'', JObject [(''maxRequestUsage'', JString ''500''), (''numRequests'', JInt 1)])] :: unit json)) ''u'' ''t'') = Inl (TypeError ''unsupported operand'')"
  using get_remaining_balance_object_body
          [where kvs = "[(''gpt-4'', JObject [(''maxRequestUsage'', JInt 500), (''numRequests'', JInt 120)])] :: (string \<times> unit json) list"
             and u = "[(''maxRequestUsage'', JInt 500), (''numRequests'', JInt 120)]" and m = 500 and n = 120
             and user = "''u''" and token = "''t''"]
        get_remaining_balance_object_body
          [where kvs = "[(''gpt-4'', JObject [(''maxRequestUsage'', JInt 10), (''numRequests'', JInt 25)])] :: (string \<times> unit json) list"
             and u = "[(''maxRequestUsage'', JInt 10), (''numRequests'', JInt 25)]" and m = 10 and n = 25
             and user = "''u''" and token = "''t''"]
        get_remaining_balance_object_body
          [where kvs = "[(''gpt-4'', JObject [(''numRequests'', JInt 25)])] :: (string \<times> unit json) list"
             and u = "[(''numRequests'', JInt 25)]" and user = "''u''" and token = "''t''"]
        get_remaining_balance_object_body
          [where kvs = "[(''gpt-3.5-turbo'', JNull)] :: (string \<times> unit json) list"
             and user = "''u''" and token = "''t''"]
        get_remaining_balance_object_body
          [where kvs = "[(''gpt-4'', JObject [(''maxRequestUsage'', JBool True), (''numRequests'', JBool False)])] :: (string \<times> unit json) list"
             and u = "[(''maxRequestUsage'', JBool True), (''numRequests'', JBool False)]"
             and a = "JBool True" and b = "JBool False" and x = "NInt 1" and y = "NInt 0"
             and user = "''u''" and token = "''t''"]
        get_remaining_balance_object_body
          [where kvs = "[(''gpt-4'', JObject [(''maxRequestUsage'', JString ''500''), (''numRequests'', JInt 1)])] :: (string \<times> unit json) list"
             and u = "[(''maxRequestUsage'', JString ''500''), (''numRequests'', JInt 1)]"
             and a = "JString ''500''" and b = "JInt 1"
             and user = "''u''" and token = "''t''"]
  by simp

text \<open>
  Claim C1 as stated, for every JSON response body, fails. With the body
  \<open>{"gpt-4": {"maxRequestUsage": null, "numRequests": 3}}\<close> the sub-object and both
  keys are present, and the call raises TypeError at the subtraction; with the body
  \<open>[]\<close> there is no sub-object, and the call raises AttributeError at \<open>.get\<close>.
\<close>

theorem get_remaining_balance_raises:
  "snd (get_remaining_balance
          (answers (JObject [(''gpt-4'', JObject [(''maxRequestUsage'', JNull), (''numRequests'', JInt 3)])] :: unit json))
          ''user'' ''token'') = Inl (TypeError ''unsupported operand'')
 \<and> snd (get_remaining_balance (answers (JArray [] :: unit json)) ''user'' ''token'') =
     Inl (AttributeError ''get'')"
  by (simp add: get_remaining_balance_def answers_def balance_of_usage_def py_sub_def Let_def)

lemma url_encode_unreserved: "list_all unreserved s \<Longrightarrow> url_encode s = s"
  by (induction s) (simp_all add: url_encode_def percent_encode_def)

lemma url_encode_append: "url_encode (a @ b) = url_encode a @ url_encode b"
  by (simp add: url_encode_def)

lemma url_encode_separator: "url_encode ''::'' = ''%3A%3A''"
  by (simp add: url_encode_def percent_encode_def unreserved_def)

text \<open>
  Claim C8, as the code has it. Each of the two operations sends exactly one
  request, whose \<open>Cookie\<close> header is \<open>WorkosCursorSessionToken=\<close>, then the user
  as given, then \<open>%3A%3A\<close>, which is the URL encoding of \<open>::\<close>, then the token as
  given. The user and the token are not URL-encoded: the value is the URL encoding
  of \<open>{user}::{token}\<close> when both consist of unreserved characters.
\<close>

theorem session_cookie_sent:
  "fst (get_remaining_balance http user token) =
     [\<lparr>url = ''https://www.cursor.com/api/usage?user='' @ user,
       headers = [(''Content-Type'', ''application/json''),
                  (''Cookie'', ''WorkosCursorSessionToken='' @ user @ ''%3A%3A'' @ token)]\<rparr>]
 \<and> fst (get_trial_remaining_days http' user token) =
     [\<lparr>url = ''https://www.cursor.com/api/auth/stripe'',
       headers = [(''Content-Type'', ''application/json''),
                  (''Cookie'', ''WorkosCursorSessionToken='' @ user @ ''%3A%3A'' @ token)]\<rparr>]
 \<and> url_encode ''::'' = ''%3A%3A''
 \<and> (list_all unreserved user \<and> list_all unreserved token \<longrightarrow>
      ''WorkosCursorSessionToken='' @ user @ ''%3A%3A'' @ token = spec_cookie user token)"
proof -
  have whole: "url_encode (user @ ''::'' @ token) =
      url_encode user @ url_encode ''::'' @ url_encode token"
    by (simp only: url_encode_append)
  have spec: "''WorkosCursorSessionToken='' @ user @ ''%3A%3A'' @ token = spec_cookie user token"
    if "list_all unreserved user" "list_all unreserved token"
    unfolding spec_cookie_def whole url_encode_separator
      url_encode_unreserved[OF that(1)] url_encode_unreserved[OF that(2)] ..
  have sent: "fst (get_remaining_balance http user token) =
     [\<lparr>url = ''https://www.cursor.com/api/usage?user='' @ user,
       headers = [(''Content-Type'', ''application/json''),
                  (''Cookie'', ''WorkosCursorSessionToken='' @ user @ ''%3A%3A'' @ token)]\<rparr>]"
    by (simp add: get_remaining_balance_def auth_headers_def Let_def)
  have sent': "fst (get_trial_remaining_days http' user token) =
     [\<lparr>url = ''https://www.cursor.com/api/auth/stripe'',
       headers = [(''Content-Type'', ''application/json''),
                  (''Cookie'', ''WorkosCursorSessionToken='' @ user @ ''%3A%3A'' @ token)]\<rparr>]"
    by (simp add: get_trial_remaining_days_def auth_headers_def Let_def)
  from sent sent' url_encode_separator spec show ?thesis by blast
qed

theorem session_cookie_sent_witness:
  "fst (get_remaining_balance (answers (JNull :: unit json)) ''user_01'' ''eyJ.x-y_z'') =
     [\<lparr>url = ''https://www.cursor.com/api/usage?user=user_01'',
       headers = [(''Content-Type'', ''application/json''),
                  (''Cookie'', ''WorkosCursorSessionToken=user_01%3A%3AeyJ.x-y_z'')]\<rparr>]
  \<and> spec_cookie ''user_01'' ''eyJ.x-y_z'' = ''WorkosCursorSessionToken=user_01%3A%3AeyJ.x-y_z''"
  using session_cookie_sent
          [of "answers (JNull :: unit json)" "''user_01''" "''eyJ.x-y_z''" "answers (JNull :: unit json)"]
  by (simp add: unreserved_def)

text \<open>
  Claim C8 as stated, for every user and token, fails: a user that holds a
  character URL encoding changes is sent as it is. For the user \<open>a:b\<close> and the token
  \<open>t\<close> the cookie sent is \<open>WorkosCursorSessionToken=a:b%3A%3At\<close>, while the URL
  encoding of \<open>a:b::t\<close> is \<open>a%3Ab%3A%3At\<close>.
\<close>

theorem session_cookie_not_encoded:
  "map_of (headers (hd (fst (get_remaining_balance (answers (JNull :: unit json)) ''a:b'' ''t'')))) ''Cookie''
     = Some ''WorkosCursorSessionToken=a:b%3A%3At''
 \<and> spec_cookie ''a:b'' ''t'' = ''WorkosCursorSessionToken=a%3Ab%3A%3At''"
  by (simp add: get_remaining_balance_def auth_headers_def spec_cookie_def url_encode_def
      percent_encode_def unreserved_def Let_def)

section \<open>Properties of the persistence layer\<close>



lemma create_engine_ok:
  "create_async_engine w (create_engine_args (DATABASE_URL w)) = None \<Longrightarrow>
   create_engine w = ([CallCreateAsyncEngine (create_engine_args (DATABASE_URL w))],
                      Inr (create_engine_args (DATABASE_URL w)))"
  by (simp add: create_engine_def Let_def)



text \<open>
  Claim C2. Once \<open>get_session\<close> has its engine, on every path, whether the
  caller's block returns or raises (or is never reached because the connectivity
  query raised), the last things the helper does are \<open>session.close()\<close>, the log
  entry for its error if it raised, \<open>engine.dispose()\<close>, and the log entry for its
  error if it raised. Each is called exactly once, after the caller's block, and
  whatever the close did the dispose is called. What leaves the helper is decided
  by the \<open>try\<close> part alone: an error of a cleanup step never does.
\<close>

theorem get_session_closes_and_disposes:
  assumes "create_async_engine w (create_engine_args (DATABASE_URL w)) = None"
  shows "(\<exists>pre. fst (get_session w) =
            pre @ [CallClose] @
            (case session_close w of Some e \<Rightarrow> [LogError (CloseError e)] | None \<Rightarrow> []) @
            [CallDispose] @
            (case engine_dispose w of Some e \<Rightarrow> [LogError (DisposeError e)] | None \<Rightarrow> [])
          \<and> CallClose \<notin> set pre \<and> CallDispose \<notin> set pre
          \<and> (session_execute w ''SELECT 1'' = None \<longrightarrow> YieldSession \<in> set pre))
       \<and> snd (get_session w) = (case snd (try_part w) of None \<Rightarrow> Inr () | Some e \<Rightarrow> Inl e)"
proof (cases "try_part w")
  case (Pair t1 r)
  let ?t0 = "[CallCreateAsyncEngine (create_engine_args (DATABASE_URL w)), NewSession]"
  show ?thesis
  proof (cases r)
    case None
    with Pair assms show ?thesis
      by (auto simp: get_session_def create_engine_ok finally_part_def try_part_def
          split: option.splits intro!: exI[of _ "?t0 @ t1"])
  next
    case (Some e)
    with Pair assms show ?thesis
      by (auto simp: get_session_def create_engine_ok finally_part_def try_part_def
          except_part_def split: option.splits
          intro!: exI[of _ "?t0 @ t1 @ fst (except_part w e)"])
  qed
qed

theorem get_session_closes_and_disposes_witness:
  "fst (get_session failing_db_world) =
     [CallCreateAsyncEngine
        \<lparr>engine_url = ''sqlite+aiosqlite:///./accounts.db'', echo = False,
         connect_args = [(''check_same_thread'', False)], future = True\<rparr>,
      NewSession, CallExecute ''SELECT 1'', YieldSession,
      LogError (SessionError (OtherException ''body'')), CallRollback,
      LogError (RollbackError (OtherException ''rollback'')),
      CallClose, LogError (CloseError (OtherException ''close'')),
      CallDispose, LogError (DisposeError (OtherException ''dispose''))]
 \<and> snd (get_session failing_db_world) = Inl (OtherException ''body'')
 \<and> snd (get_session (failing_db_world\<lparr>with_body := None\<rparr>)) = Inr ()"
  using get_session_closes_and_disposes[of failing_db_world]
        get_session_closes_and_disposes[of "failing_db_world\<lparr>with_body := None\<rparr>"]
  by (simp add: failing_db_world_def get_session_def create_engine_def create_engine_args_def
      try_part_def except_part_def finally_part_def Let_def)

text \<open>
  Claim C6. When an exception \<open>e\<close> is raised inside the scope, by the connectivity
  query or by the caller's block, the helper logs \<open>e\<close>, then calls
  \<open>session.rollback()\<close>, logs the rollback's error if it raised, runs the cleanup,
  and what leaves the helper is \<open>e\<close> itself, whatever the rollback and the
  cleanup did.
\<close>

theorem get_session_reraises_original:
  assumes "create_async_engine w (create_engine_args (DATABASE_URL w)) = None"
      and "session_execute w ''SELECT 1'' = Some e \<or>
           (session_execute w ''SELECT 1'' = None \<and> with_body w = Some e)"
  shows "snd (get_session w) = Inl e \<and>
         (\<exists>pre. fst (get_session w) =
            pre @ [LogError (SessionError e), CallRollback] @
            (case session_rollback w of Some r \<Rightarrow> [LogError (RollbackError r)] | None \<Rightarrow> []) @
            finally_part w
          \<and> CallRollback \<notin> set pre \<and> LogError (SessionError e) \<notin> set pre)"
proof -
  from assms(2) obtain t1 where t: "try_part w = (t1, Some e)"
     and t1: "CallRollback \<notin> set t1" "LogError (SessionError e) \<notin> set t1"
    by (auto simp: try_part_def)
  show ?thesis
    using assms(1) t t1
    by (auto simp: get_session_def create_engine_ok except_part_def
        intro!: exI[of _ "[CallCreateAsyncEngine (create_engine_args (DATABASE_URL w)), NewSession] @ t1"])
qed

theorem get_session_reraises_original_witness:
  "snd (get_session (failing_db_world\<lparr>session_execute := (\<lambda>query. Some (OtherException ''connect''))\<rparr>))
     = Inl (OtherException ''connect'')
 \<and> fst (get_session (failing_db_world\<lparr>session_execute := (\<lambda>query. Some (OtherException ''connect''))\<rparr>))
     = [CallCreateAsyncEngine
          \<lparr>engine_url = ''sqlite+aiosqlite:///./accounts.db'', echo = False,
           connect_args = [(''check_same_thread'', False)], future = True\<rparr>,
        NewSession, CallExecute ''SELECT 1'',
        LogError (SessionError (OtherException ''connect'')), CallRollback,
        LogError (RollbackError (OtherException ''rollback'')),
        CallClose, LogError (CloseError (OtherException ''close'')),
        CallDispose, LogError (DisposeError (OtherException ''dispose''))]
 \<and> snd (get_session (failing_db_world\<lparr>session_rollback := None\<rparr>)) = Inl (OtherException ''body'')"
  using get_session_reraises_original
          [of "failing_db_world\<lparr>session_execute := (\<lambda>query. Some (OtherException ''connect''))\<rparr>"
              "OtherException ''connect''"]
        get_session_reraises_original
          [of "failing_db_world\<lparr>session_rollback := None\<rparr>" "OtherException ''body''"]
  by (simp add: failing_db_world_def get_session_def create_engine_def create_engine_args_def
      try_part_def except_part_def finally_part_def Let_def)

text \<open>
  Claim C9. When \<open>init_db\<close> has its engine and the schema-creation step raises
  \<open>e\<close>, \<open>init_db\<close> logs the failure last, \<open>e\<close> leaves the call, and
  \<open>engine.dispose()\<close> is never called, nor is success logged; \<open>get_session\<close> in
  the same world does call \<open>engine.dispose()\<close>.
\<close>

theorem init_db_failure_skips_dispose:
  assumes "create_async_engine w (create_engine_args (DATABASE_URL w)) = None"
      and "snd (schema_step w) = Some e"
  shows "snd (init_db w) = Inl e
       \<and> last (fst (init_db w)) = LogError (InitFailed e)
       \<and> CallDispose \<notin> set (fst (init_db w))
       \<and> LogInfo InitDone \<notin> set (fst (init_db w))
       \<and> CallDispose \<in> set (fst (get_session w))"
proof -
  obtain t1 where s: "schema_step w = (t1, Some e)"
    using assms(2) by (cases "schema_step w") auto
  then have t1: "CallDispose \<notin> set t1" "LogInfo InitDone \<notin> set t1"
    by (auto simp: schema_step_def split: option.splits)
  have a: "snd (init_db w) = Inl e
       \<and> last (fst (init_db w)) = LogError (InitFailed e)
       \<and> CallDispose \<notin> set (fst (init_db w))
       \<and> LogInfo InitDone \<notin> set (fst (init_db w))"
    using assms(1) s t1 by (simp add: init_db_def init_db_try_def create_engine_ok)
  have "CallDispose \<in> set (fst (get_session w))"
    using assms(1)
    by (cases "try_part w")
       (auto simp: get_session_def create_engine_ok finally_part_def except_part_def
          split: option.splits)
  with a show ?thesis by blast
qed

theorem init_db_failure_skips_dispose_witness:
  "init_db failing_db_world =
     ([CallCreateAsyncEngine
         \<lparr>engine_url = ''sqlite+aiosqlite:///./accounts.db'', echo = False,
          connect_args = [(''check_same_thread'', False)], future = True\<rparr>,
       CallBegin, CallRunSyncCreateAll, ExitBegin,
       LogError (InitFailed (OtherException ''create_all''))],
      Inl (OtherException ''create_all''))
 \<and> fst (init_db (failing_db_world\<lparr>run_sync_create_all := None, engine_dispose := None\<rparr>)) =
     [CallCreateAsyncEngine
         \<lparr>engine_url = ''sqlite+aiosqlite:///./accounts.db'', echo = False,
          connect_args = [(''check_same_thread'', False)], future = True\<rparr>,
       CallBegin, CallRunSyncCreateAll, ExitBegin, CallDispose, LogInfo InitDone]"
  using init_db_failure_skips_dispose[of failing_db_world "OtherException ''create_all''"]
  by (simp add: failing_db_world_def init_db_def init_db_try_def schema_step_def
      create_engine_def create_engine_args_def Let_def)

section \<open>Properties of the machine-identity rewriter\<close>

lemma map_of_dict_set: "map_of (dict_set d k v) = (map_of d)(k \<mapsto> v)"
  by (induction d) (auto simp: fun_eq_iff)

lemma map_of_dict_update: "map_of (dict_update d other) = map_of d ++ map_of (rev other)"
  unfolding dict_update_def
proof (induction other arbitrary: d)
  case Nil
  then show ?case by simp
next
  case (Cons x xs)
  obtain k v where x: "x = (k, v)" by (cases x)
  show ?case
    by (simp add: x Cons.IH map_of_dict_set map_add_def fun_eq_iff split: option.splits)
qed

lemma emit_simps:
  "config_file (emit x s) = config_file s" "access_rw (emit x s) = access_rw s"
  "drawn (emit x s) = drawn s" "effects (emit x s) = effects s @ [x]"
  by (simp_all add: emit_def)

lemma generate_new_ids_state:
  "snd (generate_new_ids w s) = s\<lparr>drawn := drawn s + 128\<rparr>"
  by (simp add: generate_new_ids_def urandom_def Let_def split: prod.splits)

lemma generate_new_ids_keys:
  "map fst (fst (generate_new_ids w s)) = telemetry_keys"
  by (simp add: generate_new_ids_def urandom_def Let_def telemetry_keys_def split: prod.splits)

lemma generate_new_ids_emit:
  "fst (generate_new_ids w (emit x s)) = fst (generate_new_ids w s)"
  by (simp add: generate_new_ids_def urandom_def Let_def emit_def split: prod.splits)

lemma effects_foldl_emit:
  "effects (foldl (\<lambda>s (k, v). emit (Print (NewId k v)) s) s ids) =
     effects s @ map (\<lambda>(k, v). Print (NewId k v)) ids"
  by (induction ids arbitrary: s) (auto simp: emit_simps)

lemma config_file_foldl_emit:
  "config_file (foldl (\<lambda>s (k, v). emit (Print (NewId k v)) s) s ids) = config_file s"
  by (induction ids arbitrary: s) (auto simp: emit_simps)

lemma generate_new_ids_drawn:
  "fst (generate_new_ids w (s\<lparr>effects := x\<rparr>)) = fst (generate_new_ids w s)"
  by (simp add: generate_new_ids_def urandom_def Let_def split: prod.splits)

lemmas reset_simps =
  reset_try_def Let_def emit_simps load_config_def save_config_def case_prod_beta
  generate_new_ids_state generate_new_ids_emit effects_foldl_emit config_file_foldl_emit

lemma reset_try_no_file:
  assumes "config_file s = None"
  shows "fst (reset_try w s) = Inr False"
    and "config_file (snd (reset_try w s)) = None"
    and "effects (snd (reset_try w s)) =
           effects s @ [Print Checking, Print (NoConfigFile (db_path w))]"
  using assms by (simp_all add: reset_simps)

lemma reset_try_no_access:
  assumes "config_file s = Some c" "\<not> access_rw s"
  shows "fst (reset_try w s) = Inr False"
    and "config_file (snd (reset_try w s)) = Some c"
    and "effects (snd (reset_try w s)) =
           effects s @ [Print Checking, Print CannotReadWrite, Print (ReadOnlyHint (db_path w))]"
  using assms by (simp_all add: reset_simps)

lemma reset_try_open_read_fails:
  assumes "config_file s = Some c" "access_rw s" "open_read w = Some e"
  shows "fst (reset_try w s) = Inl e"
    and "config_file (snd (reset_try w s)) = Some c"
    and "effects (snd (reset_try w s)) = effects s @ [Print Checking, Print Reading]"
  using assms by (simp_all add: reset_simps)

lemma reset_try_not_json:
  assumes "config_file s = Some (OtherText t)" "access_rw s" "open_read w = None"
  shows "fst (reset_try w s) = Inl (OtherException ''JSONDecodeError'')"
    and "config_file (snd (reset_try w s)) = Some (OtherText t)"
    and "effects (snd (reset_try w s)) = effects s @ [Print Checking, Print Reading, OpenForRead]"
  using assms by (simp_all add: reset_simps)

lemma config_update_not_object:
  "\<forall>kvs. j \<noteq> JObject kvs \<Longrightarrow> config_update j ids = Inl (AttributeError ''update'')"
  by (cases j) simp_all

lemma reset_try_not_object:
  assumes "config_file s = Some (JsonText j)" "access_rw s" "open_read w = None"
      and "\<forall>kvs. j \<noteq> JObject kvs"
  shows "fst (reset_try w s) = Inl (AttributeError ''update'')"
    and "config_file (snd (reset_try w s)) = Some (JsonText j)"
    and "effects (snd (reset_try w s)) =
           effects s @ [Print Checking, Print Reading, OpenForRead, Print Generating]"
  using assms by (simp_all add: reset_simps config_update_not_object)

lemma reset_try_open_write_fails:
  assumes "config_file s = Some (JsonText (JObject cfg))" "access_rw s" "open_read w = None"
      and "open_write w = Some e"
  shows "fst (reset_try w s) = Inl e"
    and "config_file (snd (reset_try w s)) = Some (JsonText (JObject cfg))"
    and "effects (snd (reset_try w s)) =
           effects s @ [Print Checking, Print Reading, OpenForRead, Print Generating, Print Saving]"
  using assms by (simp_all add: reset_simps)

lemma reset_try_dump_fails:
  assumes "config_file s = Some (JsonText (JObject cfg))" "access_rw s" "open_read w = None"
      and "open_write w = None" "json_dump w = Some (e, left)"
  shows "fst (reset_try w s) = Inl e"
    and "config_file (snd (reset_try w s)) = Some left"
    and "effects (snd (reset_try w s)) =
           effects s @ [Print Checking, Print Reading, OpenForRead, Print Generating, Print Saving,
                        OpenForWrite]"
  using assms by (simp_all add: reset_simps)

lemma reset_try_writes:
  assumes "config_file s = Some (JsonText (JObject cfg))" "access_rw s" "open_read w = None"
      and "open_write w = None" "json_dump w = None"
  shows "fst (reset_try w s) = Inr True"
    and "config_file (snd (reset_try w s)) =
           Some (JsonText (JObject (dict_update cfg
              (map (\<lambda>(k, v). (k, JString v)) (fst (generate_new_ids w s))))))"
    and "effects (snd (reset_try w s)) =
           effects s @ [Print Checking, Print Reading, OpenForRead, Print Generating, Print Saving,
                        OpenForWrite, Print Succeeded, Print NewIdsHeader] @
           map (\<lambda>(k, v). Print (NewId k v)) (fst (generate_new_ids w s))"
  using assms by (simp_all add: reset_simps generate_new_ids_drawn)

lemma reset_world_cases:
  fixes w :: "'f rm_world" and s :: "'f rm_state"
  obtains (no_file) "config_file s = None"
  | (no_access) c where "config_file s = Some c" "\<not> access_rw s"
  | (read_fails) c e where "config_file s = Some c" "access_rw s" "open_read w = Some e"
  | (not_json) t where "config_file s = Some (OtherText t)" "access_rw s" "open_read w = None"
  | (not_object) j where "config_file s = Some (JsonText j)" "access_rw s" "open_read w = None"
      "\<forall>kvs. j \<noteq> JObject kvs"
  | (write_fails) cfg e where "config_file s = Some (JsonText (JObject cfg))" "access_rw s"
      "open_read w = None" "open_write w = Some e"
  | (dump_fails) cfg e left where "config_file s = Some (JsonText (JObject cfg))" "access_rw s"
      "open_read w = None" "open_write w = None" "json_dump w = Some (e, left)"
  | (writes) cfg where "config_file s = Some (JsonText (JObject cfg))" "access_rw s"
      "open_read w = None" "open_write w = None" "json_dump w = None"
proof (cases "config_file s")
  case None
  then show ?thesis by (rule no_file)
next
  case (Some c)
  show ?thesis
  proof (cases "access_rw s")
    case False
    with Some show ?thesis by (rule no_access)
  next
    case acc: True
    show ?thesis
    proof (cases "open_read w")
      case (Some e)
      with \<open>config_file s = Some c\<close> acc show ?thesis by (rule read_fails)
    next
      case rd: None
      show ?thesis
      proof (cases c)
        case (OtherText t)
        with Some acc rd show ?thesis by (auto intro: not_json)
      next
        case (JsonText j)
        show ?thesis
        proof (cases "\<exists>kvs. j = JObject kvs")
          case False
          with Some acc rd JsonText show ?thesis by (auto intro: not_object)
        next
          case True
          then obtain cfg where j: "j = JObject cfg" by blast
          show ?thesis
          proof (cases "open_write w")
            case (Some e)
            with \<open>config_file s = Some c\<close> acc rd JsonText j show ?thesis
              by (auto intro: write_fails)
          next
            case wr: None
            show ?thesis
            proof (cases "json_dump w")
              case None
              with Some acc rd JsonText j wr show ?thesis by (auto intro: writes)
            next
              case (Some p)
              obtain e left where "p = (e, left)" by (cases p)
              with Some \<open>config_file s = Some c\<close> acc rd JsonText j wr show ?thesis
                by (auto intro: dump_fails)
            qed
          qed
        qed
      qed
    qed
  qed
qed

lemma except_clauses_simps:
  "config_file (except_clauses e s) = config_file s"
  "effects (except_clauses e s) =
     effects s @ (case e of PermissionError m \<Rightarrow> [Print (PermissionErrorMsg e), Print RunAsAdminHint]
                  | _ \<Rightarrow> [Print (ResetFailedMsg e)])"
  by (cases e; simp add: except_clauses_def emit_simps)+

lemma fst_reset_machine_ids:
  "fst (reset_machine_ids w s) = (case fst (reset_try w s) of Inr b \<Rightarrow> Inr b | Inl e \<Rightarrow> Inr False)"
  by (cases "reset_try w s"; cases "fst (reset_try w s)") (simp_all add: reset_machine_ids_def)

lemma config_file_reset_machine_ids:
  "config_file (snd (reset_machine_ids w s)) = config_file (snd (reset_try w s))"
  by (cases "reset_try w s"; cases "fst (reset_try w s)")
     (simp_all add: reset_machine_ids_def except_clauses_simps)

lemma effects_reset_machine_ids:
  "effects (snd (reset_machine_ids w s)) =
     effects (snd (reset_try w s)) @
     (case fst (reset_try w s) of
        Inr b \<Rightarrow> []
      | Inl e \<Rightarrow> (case e of PermissionError m \<Rightarrow> [Print (PermissionErrorMsg e), Print RunAsAdminHint]
                  | _ \<Rightarrow> [Print (ResetFailedMsg e)]))"
  by (cases "reset_try w s"; cases "fst (reset_try w s)")
     (simp_all add: reset_machine_ids_def except_clauses_simps)

lemma new_ids_form:
  "\<exists>v1 v2 v3 v4. fst (generate_new_ids w s) =
     [(''telemetry.devDeviceId'', v1), (''telemetry.macMachineId'', v2),
      (''telemetry.machineId'', v3), (''telemetry.sqmId'', v4)]"
  by (simp add: generate_new_ids_def urandom_def Let_def split: prod.splits)








lemma length_hex_of_word: "length (hex_of_word (w::'a::len word)) = LENGTH('a) div 4"
  by (simp add: hex_of_word_def)










lemma generate_new_ids_explicit:
  "fst (generate_new_ids w s) =
     [(''telemetry.devDeviceId'',
       str_uuid (uuid4_of_bytes (map (urandom_stream w) [drawn s ..< drawn s + 16]))),
      (''telemetry.macMachineId'',
       hex_of_word (sha512 w (map (urandom_stream w) [drawn s + 48 ..< drawn s + 112]))),
      (''telemetry.machineId'',
       hex_of_word (sha256 w (map (urandom_stream w) [drawn s + 16 ..< drawn s + 48]))),
      (''telemetry.sqmId'',
       ''{'' @ upper (str_uuid (uuid4_of_bytes (map (urandom_stream w) [drawn s + 112 ..< drawn s + 128]))) @ ''}'')]"
  by (simp add: generate_new_ids_def urandom_def Let_def add.commute add.left_commute)



text \<open>
  Claim C3. When \<open>reset_machine_ids\<close> returns \<open>True\<close>, the file held a JSON
  object before the call and holds a JSON object after it, in which every key
  outside the four telemetry keys has the value it had, each of the four telemetry
  keys has the string that \<open>generate_new_ids\<close> made for it, and there are no
  other keys than the old ones and these four.
\<close>

theorem reset_preserves_other_keys:
  assumes "fst (reset_machine_ids w s) = Inr True"
  shows "\<exists>cfg cfg'.
           config_file s = Some (JsonText (JObject cfg))
         \<and> config_file (snd (reset_machine_ids w s)) = Some (JsonText (JObject cfg'))
         \<and> (\<forall>k. k \<notin> set telemetry_keys \<longrightarrow> map_of cfg' k = map_of cfg k)
         \<and> (\<forall>k \<in> set telemetry_keys.
               \<exists>v. map_of (fst (generate_new_ids w s)) k = Some v \<and> map_of cfg' k = Some (JString v))
         \<and> fst ` set cfg' = fst ` set cfg \<union> set telemetry_keys"
proof (cases rule: reset_world_cases[where s = s and w = w])
  case (writes cfg)
  let ?ids = "fst (generate_new_ids w s)"
  let ?cfg' = "dict_update cfg (map (\<lambda>(k, v). (k, JString v)) ?ids)"
  obtain v1 v2 v3 v4 where ids: "?ids =
     [(''telemetry.devDeviceId'', v1), (''telemetry.macMachineId'', v2),
      (''telemetry.machineId'', v3), (''telemetry.sqmId'', v4)]"
    using new_ids_form[of w s] by blast
  have f: "config_file (snd (reset_machine_ids w s)) = Some (JsonText (JObject ?cfg'))"
    by (simp add: config_file_reset_machine_ids reset_try_writes(2)[OF writes])
  have m: "map_of ?cfg' = map_of cfg ++ map_of (rev (map (\<lambda>(k, v). (k, JString v)) ?ids))"
    by (rule map_of_dict_update)
  have other: "\<forall>k. k \<notin> set telemetry_keys \<longrightarrow> map_of ?cfg' k = map_of cfg k"
    unfolding ids unfolding m[unfolded ids] by (simp add: telemetry_keys_def map_add_def)
  have four: "\<forall>k \<in> set telemetry_keys.
               \<exists>v. map_of ?ids k = Some v \<and> map_of ?cfg' k = Some (JString v)"
    unfolding ids unfolding m[unfolded ids] by (simp add: telemetry_keys_def map_add_def)
  have "dom (map_of ?cfg') = dom (map_of cfg) \<union> set telemetry_keys"
    unfolding ids unfolding m[unfolded ids] by (auto simp: telemetry_keys_def)
  then have keys: "fst ` set ?cfg' = fst ` set cfg \<union> set telemetry_keys"
    by (simp add: dom_map_of_conv_image_fst)
  from writes(1) f other four keys show ?thesis by blast
qed (insert assms, simp_all add: fst_reset_machine_ids
      reset_try_no_file reset_try_no_access reset_try_open_read_fails reset_try_not_json
      reset_try_not_object reset_try_open_write_fails reset_try_dump_fails)


theorem reset_preserves_other_keys_witness:
  "fst (reset_machine_ids quiet_rm_world old_rm_state) = Inr True
 \<and> (\<exists>cfg'. config_file (snd (reset_machine_ids quiet_rm_world old_rm_state)) =
              Some (JsonText (JObject cfg'))
          \<and> map_of cfg' ''a'' = Some (JInt 1)
          \<and> map_of cfg' ''telemetry.machineId'' \<noteq> Some (JString ''old''))"
proof -
  have ok: "fst (reset_machine_ids quiet_rm_world old_rm_state) = Inr True"
    by (simp add: fst_reset_machine_ids reset_try_writes(1)[where cfg =
          "[(''a'', JInt 1), (''telemetry.machineId'', JString ''old'')]"]
        quiet_rm_world_def old_rm_state_def)
  from reset_preserves_other_keys[OF ok] obtain cfg cfg' where
        c: "config_file old_rm_state = Some (JsonText (JObject cfg))"
    and c': "config_file (snd (reset_machine_ids quiet_rm_world old_rm_state)) =
              Some (JsonText (JObject cfg'))"
    and other: "\<forall>k. k \<notin> set telemetry_keys \<longrightarrow> map_of cfg' k = map_of cfg k"
    and four: "\<forall>k \<in> set telemetry_keys.
               \<exists>v. map_of (fst (generate_new_ids quiet_rm_world old_rm_state)) k = Some v \<and>
                   map_of cfg' k = Some (JString v)"
    by blast
  from c have cfg: "cfg = [(''a'', JInt 1), (''telemetry.machineId'', JString ''old'')]"
    by (simp add: old_rm_state_def)
  have a: "map_of cfg' ''a'' = Some (JInt 1)"
    using other cfg by (simp add: telemetry_keys_def)
  from four obtain v where
        v: "map_of (fst (generate_new_ids quiet_rm_world old_rm_state)) ''telemetry.machineId'' = Some v"
    and m: "map_of cfg' ''telemetry.machineId'' = Some (JString v)"
    by (auto simp: telemetry_keys_def)
  from v have "length v = 64"
    by (auto simp: generate_new_ids_explicit length_hex_of_word)
  then have "v \<noteq> ''old''" by auto
  with ok c' a m show ?thesis by auto
qed

text \<open>
  Claim C4. \<open>reset_machine_ids\<close> always returns: no exception leaves the call.
  When the file does not exist it prints that and returns \<open>False\<close>, and the file
  is still absent and was never opened. When the file may not be read and written
  it prints that, with the hint, and returns \<open>False\<close>, the file unchanged. When
  the body raises an exception \<open>e\<close>, the call returns \<open>False\<close> and the last
  thing printed is the report of \<open>e\<close>: the permission-error report with its hint
  for a \<open>PermissionError\<close>, the general report for any other. The last two parts
  give ways in which the body raises: \<open>open\<close> raising although the checks passed.
\<close>

theorem reset_machine_ids_never_raises:
  "(\<exists>b. fst (reset_machine_ids w s) = Inr b)
 \<and> (config_file s = None \<longrightarrow>
      fst (reset_machine_ids w s) = Inr False
    \<and> config_file (snd (reset_machine_ids w s)) = None
    \<and> effects (snd (reset_machine_ids w s)) =
        effects s @ [Print Checking, Print (NoConfigFile (db_path w))])
 \<and> (config_file s = Some c \<and> \<not> access_rw s \<longrightarrow>
      fst (reset_machine_ids w s) = Inr False
    \<and> config_file (snd (reset_machine_ids w s)) = Some c
    \<and> effects (snd (reset_machine_ids w s)) =
        effects s @ [Print Checking, Print CannotReadWrite, Print (ReadOnlyHint (db_path w))])
 \<and> (fst (reset_try w s) = Inl e \<longrightarrow>
      fst (reset_machine_ids w s) = Inr False
    \<and> effects (snd (reset_machine_ids w s)) =
        effects (snd (reset_try w s)) @
        (case e of PermissionError m \<Rightarrow> [Print (PermissionErrorMsg e), Print RunAsAdminHint]
         | _ \<Rightarrow> [Print (ResetFailedMsg e)]))
 \<and> (config_file s = Some c \<and> access_rw s \<and> open_read w = Some e \<longrightarrow>
      fst (reset_try w s) = Inl e)
 \<and> (config_file s = Some (JsonText (JObject cfg)) \<and> access_rw s \<and> open_read w = None \<and>
      open_write w = Some e \<longrightarrow> fst (reset_try w s) = Inl e)"
proof -
  have "\<exists>b. fst (reset_machine_ids w s) = Inr b"
    by (cases "fst (reset_try w s)") (auto simp: fst_reset_machine_ids)
  then show ?thesis
    by (simp add: fst_reset_machine_ids config_file_reset_machine_ids effects_reset_machine_ids
        reset_try_no_file reset_try_no_access reset_try_open_read_fails
        reset_try_open_write_fails)
qed


theorem reset_machine_ids_never_raises_witness:
  "fst (reset_machine_ids quiet_rm_world (old_rm_state\<lparr>config_file := None\<rparr>)) = Inr False
 \<and> config_file (snd (reset_machine_ids quiet_rm_world (old_rm_state\<lparr>config_file := None\<rparr>))) = None
 \<and> effects (snd (reset_machine_ids quiet_rm_world (old_rm_state\<lparr>config_file := None\<rparr>))) =
     [Print Checking,
      Print (NoConfigFile ''/home/u/.config/Cursor/User/globalStorage/storage.json'')]
 \<and> fst (reset_machine_ids quiet_rm_world (old_rm_state\<lparr>access_rw := False\<rparr>)) = Inr False
 \<and> effects (snd (reset_machine_ids quiet_rm_world (old_rm_state\<lparr>access_rw := False\<rparr>))) =
     [Print Checking, Print CannotReadWrite,
      Print (ReadOnlyHint ''/home/u/.config/Cursor/User/globalStorage/storage.json'')]
 \<and> fst (reset_machine_ids (quiet_rm_world\<lparr>open_read := Some (PermissionError ''denied'')\<rparr>)
          old_rm_state) = Inr False
 \<and> effects (snd (reset_machine_ids (quiet_rm_world\<lparr>open_read := Some (PermissionError ''denied'')\<rparr>)
          old_rm_state)) =
     [Print Checking, Print Reading, Print (PermissionErrorMsg (PermissionError ''denied'')),
      Print RunAsAdminHint]
 \<and> effects (snd (reset_machine_ids (quiet_rm_world\<lparr>open_write := Some (OtherException ''busy'')\<rparr>)
          old_rm_state)) =
     [Print Checking, Print Reading, OpenForRead, Print Generating, Print Saving,
      Print (ResetFailedMsg (OtherException ''busy''))]"
proof -
  let ?cfg = "[(''a'', JInt 1), (''telemetry.machineId'', JString ''old'')] :: (string \<times> unit json) list"
  let ?w1 = "quiet_rm_world\<lparr>open_read := Some (PermissionError ''denied'')\<rparr>"
  let ?w2 = "quiet_rm_world\<lparr>open_write := Some (OtherException ''busy'')\<rparr>"
  have s: "config_file old_rm_state = Some (JsonText (JObject ?cfg))" "access_rw old_rm_state"
      "effects old_rm_state = []"
    by (simp_all add: old_rm_state_def)
  have w: "db_path quiet_rm_world = ''/home/u/.config/Cursor/User/globalStorage/storage.json''"
      "open_read ?w1 = Some (PermissionError ''denied'')"
      "open_read ?w2 = None" "open_write ?w2 = Some (OtherException ''busy'')"
    by (simp_all add: quiet_rm_world_def)
  have a: "fst (reset_machine_ids quiet_rm_world (old_rm_state\<lparr>config_file := None\<rparr>)) = Inr False
     \<and> config_file (snd (reset_machine_ids quiet_rm_world (old_rm_state\<lparr>config_file := None\<rparr>))) = None
     \<and> effects (snd (reset_machine_ids quiet_rm_world (old_rm_state\<lparr>config_file := None\<rparr>))) =
         [Print Checking,
          Print (NoConfigFile ''/home/u/.config/Cursor/User/globalStorage/storage.json'')]"
    using reset_machine_ids_never_raises
            [of quiet_rm_world "old_rm_state\<lparr>config_file := None\<rparr>"] s(3) w(1)
    by simp
  have a': "fst (reset_machine_ids quiet_rm_world (old_rm_state\<lparr>access_rw := False\<rparr>)) = Inr False
     \<and> effects (snd (reset_machine_ids quiet_rm_world (old_rm_state\<lparr>access_rw := False\<rparr>))) =
         [Print Checking, Print CannotReadWrite,
          Print (ReadOnlyHint ''/home/u/.config/Cursor/User/globalStorage/storage.json'')]"
    using reset_machine_ids_never_raises
            [of quiet_rm_world "old_rm_state\<lparr>access_rw := False\<rparr>" "JsonText (JObject ?cfg)"]
          s w(1)
    by simp
  have b: "fst (reset_machine_ids ?w1 old_rm_state) = Inr False
     \<and> effects (snd (reset_machine_ids ?w1 old_rm_state)) =
         [Print Checking, Print Reading, Print (PermissionErrorMsg (PermissionError ''denied'')),
          Print RunAsAdminHint]"
    using reset_machine_ids_never_raises
            [of ?w1 old_rm_state "JsonText (JObject ?cfg)" "PermissionError ''denied''"]
          reset_try_open_read_fails(3)[OF s(1) s(2) w(2)] s w(2)
    by simp
  have c: "effects (snd (reset_machine_ids ?w2 old_rm_state)) =
         [Print Checking, Print Reading, OpenForRead, Print Generating, Print Saving,
          Print (ResetFailedMsg (OtherException ''busy''))]"
    using reset_machine_ids_never_raises
            [of ?w2 old_rm_state _ "OtherException ''busy''" ?cfg]
          reset_try_open_write_fails(3)[OF s(1) s(2) w(3) w(4)] s w(3) w(4)
    by simp
  from a a' b c show ?thesis by blast
qed

text \<open>
  Claim C10. When the file exists and may be read and written, and its text is not
  JSON or is JSON for something other than an object, \<open>reset_machine_ids\<close>
  returns \<open>False\<close> and the file is as it was. And in every world, the file is
  opened for writing only when it held a JSON object that was read: the effects of
  a call hold \<open>OpenForWrite\<close> in no other case.
\<close>

theorem reset_unparsed_file_unchanged:
  "(config_file s = Some c \<and> access_rw s \<and>
    ((\<exists>t. c = OtherText t) \<or> (\<exists>j. c = JsonText j \<and> (\<forall>kvs. j \<noteq> JObject kvs))) \<longrightarrow>
      fst (reset_machine_ids w s) = Inr False
    \<and> config_file (snd (reset_machine_ids w s)) = Some c)
 \<and> (\<exists>new. effects (snd (reset_machine_ids w s)) = effects s @ new
      \<and> (OpenForWrite \<in> set new \<longrightarrow>
           (\<exists>cfg. config_file s = Some (JsonText (JObject cfg))) \<and> access_rw s \<and>
           open_read w = None \<and> open_write w = None))"
proof (cases rule: reset_world_cases[where s = s and w = w])
  case no_file
  then show ?thesis
    by (auto simp: fst_reset_machine_ids config_file_reset_machine_ids effects_reset_machine_ids
        reset_try_no_file)
next
  case (no_access c)
  then show ?thesis
    by (auto simp: fst_reset_machine_ids config_file_reset_machine_ids effects_reset_machine_ids
        reset_try_no_access)
next
  case (read_fails c e)
  then show ?thesis
    by (cases e)
       (auto simp: fst_reset_machine_ids config_file_reset_machine_ids
         effects_reset_machine_ids reset_try_open_read_fails)
next
  case (not_json t)
  then show ?thesis
    by (auto simp: fst_reset_machine_ids config_file_reset_machine_ids effects_reset_machine_ids
        reset_try_not_json)
next
  case (not_object j)
  then show ?thesis
    by (auto simp: fst_reset_machine_ids config_file_reset_machine_ids effects_reset_machine_ids
        reset_try_not_object)
next
  case (write_fails cfg e)
  then show ?thesis
    by (cases e)
       (auto simp: fst_reset_machine_ids config_file_reset_machine_ids
         effects_reset_machine_ids reset_try_open_write_fails)
next
  case (dump_fails cfg e left)
  then show ?thesis
    by (auto simp: fst_reset_machine_ids config_file_reset_machine_ids effects_reset_machine_ids
        reset_try_dump_fails)
next
  case (writes cfg)
  then show ?thesis
    by (auto simp: fst_reset_machine_ids config_file_reset_machine_ids effects_reset_machine_ids
        reset_try_writes)
qed


theorem reset_unparsed_file_unchanged_witness:
  "fst (reset_machine_ids quiet_rm_world (old_rm_state\<lparr>config_file := Some (OtherText ''{not json'')\<rparr>))
     = Inr False
 \<and> config_file (snd (reset_machine_ids quiet_rm_world
        (old_rm_state\<lparr>config_file := Some (OtherText ''{not json'')\<rparr>))) = Some (OtherText ''{not json'')
 \<and> fst (reset_machine_ids quiet_rm_world
        (old_rm_state\<lparr>config_file := Some (JsonText (JArray [JInt 1]))\<rparr>)) = Inr False
 \<and> config_file (snd (reset_machine_ids quiet_rm_world
        (old_rm_state\<lparr>config_file := Some (JsonText (JArray [JInt 1]))\<rparr>))) =
     Some (JsonText (JArray [JInt 1]))
 \<and> OpenForWrite \<in> set (effects (snd (reset_machine_ids quiet_rm_world old_rm_state)))
 \<and> OpenForWrite \<notin> set (effects (snd (reset_machine_ids quiet_rm_world
        (old_rm_state\<lparr>config_file := Some (JsonText (JArray [JInt 1]))\<rparr>))))"
  using reset_unparsed_file_unchanged
          [of "old_rm_state\<lparr>config_file := Some (OtherText ''{not json'')\<rparr>" "OtherText ''{not json''"
              quiet_rm_world]
        reset_unparsed_file_unchanged
          [of "old_rm_state\<lparr>config_file := Some (JsonText (JArray [JInt 1]))\<rparr>"
              "JsonText (JArray [JInt 1])" quiet_rm_world]
        reset_unparsed_file_unchanged[of old_rm_state _ quiet_rm_world]
  by (simp add: old_rm_state_def quiet_rm_world_def effects_reset_machine_ids
      fst_reset_machine_ids reset_try_writes reset_try_not_object)

end
